theory Spec2Isabelle
  imports Main
begin

section \<open>Values of the host language\<close>

text \<open>
  The library under verification is \<^verbatim>\<open>lib/main.js\<close>: an object \<^verbatim>\<open>Iterator\<close> whose
  methods wrap any iterable value and offer the array methods on it. Its behaviour depends
  on a handful of rules of ECMAScript itself (the \<^verbatim>\<open>in\<close> operator, strict equality,
  truthiness, the iteration protocol), which are modelled first.

  A value is a primitive or an object. An object carries the address it lives at, because
  \<^verbatim>\<open>===\<close> and the keys of a \<^verbatim>\<open>Map\<close> compare objects by identity, not by content. Numbers
  are the integers together with \<^verbatim>\<open>NaN\<close>; an ordinary object has its string-keyed data
  properties and the state of its \<^verbatim>\<open>Symbol.iterator\<close> property: absent, a method that
  returns an iterator over a finite sequence of elements, or a value that is not a function.
  Function values other than such an iterator method are not elements of the model.
\<close>

datatype jsval =
    Undefined
  | Null
  | Bool bool
  | Num int
  | NaN
  | Str string
  | Arr nat "jsval list"
  | Obj nat "(string \<times> jsval) list" iterator_property
and iterator_property =
    Absent
  | Method "jsval list"
  | NonFunction jsval

text \<open>
  What a \<^verbatim>\<open>throw\<close> carries: a \<^verbatim>\<open>TypeError\<close> with its message (raised by the library's
  \<^verbatim>\<open>new\<close> or by the host; the texts of the host's messages differ between engines, the
  ones below stand for them), a \<^verbatim>\<open>RangeError\<close> of the host, or any value a callback throws.
\<close>

datatype error = TypeError string | RangeError string | Thrown jsval


definition is_object :: "jsval \<Rightarrow> bool" where
  "is_object v = (case v of Arr a xs \<Rightarrow> True | Obj a ps ip \<Rightarrow> True | _ \<Rightarrow> False)"

text \<open>\<^verbatim>\<open>!!v\<close>: the falsy values are undefined, null, false, 0, NaN and the empty string.\<close>

definition truthy :: "jsval \<Rightarrow> bool" where
  "truthy v = (case v of
      Undefined \<Rightarrow> False
    | Null \<Rightarrow> False
    | Bool b \<Rightarrow> b
    | Num n \<Rightarrow> n \<noteq> 0
    | NaN \<Rightarrow> False
    | Str s \<Rightarrow> s \<noteq> []
    | Arr a xs \<Rightarrow> True
    | Obj a ps ip \<Rightarrow> True)"

text \<open>\<^verbatim>\<open>a === b\<close>: primitives by value, \<^verbatim>\<open>NaN\<close> equal to nothing, objects by identity.\<close>

definition strict_equals :: "jsval \<Rightarrow> jsval \<Rightarrow> bool" where
  "strict_equals v w = (case v of
      Undefined \<Rightarrow> w = Undefined
    | Null \<Rightarrow> w = Null
    | Bool a \<Rightarrow> w = Bool a
    | Num a \<Rightarrow> w = Num a
    | NaN \<Rightarrow> False
    | Str a \<Rightarrow> w = Str a
    | Arr a xs \<Rightarrow> (case w of Arr b ys \<Rightarrow> a = b | _ \<Rightarrow> False)
    | Obj a ps ip \<Rightarrow> (case w of Obj b qs iq \<Rightarrow> a = b | _ \<Rightarrow> False))"

text \<open>SameValueZero, the comparison of \<^verbatim>\<open>Map\<close> keys: as \<^verbatim>\<open>===\<close>, but \<^verbatim>\<open>NaN\<close> equals itself.\<close>

definition same_value_zero :: "jsval \<Rightarrow> jsval \<Rightarrow> bool" where
  "same_value_zero v w = (if v = NaN \<and> w = NaN then True else strict_equals v w)"

text \<open>
  What SameValueZero compares: a primitive as it is, an object by its kind and address.
\<close>

definition identity :: "jsval \<Rightarrow> jsval" where
  "identity v = (case v of
      Arr a xs \<Rightarrow> Arr a []
    | Obj a ps ip \<Rightarrow> Obj a [] Absent
    | _ \<Rightarrow> v)"

text \<open>\<^verbatim>\<open>a ?? b\<close>: the right operand only when the left one is undefined or null.\<close>

definition nullish_coalesce :: "jsval \<Rightarrow> jsval \<Rightarrow> jsval" where
  "nullish_coalesce a b = (if a = Undefined \<or> a = Null then b else a)"

section \<open>The iteration protocol\<close>

text \<open>
  A running iteration is a resumption: it has finished, it has thrown, or it has yielded an
  element and waits to be resumed. Callbacks may have side effects, so every computation
  passes a state \<open>'s\<close> of the caller's choice along, and every step says which state it
  left behind. Nothing of the rest of a sequence is computed before the consumer resumes
  it: this is what makes the chain operations lazy. The resumptions are a datatype, so every
  sequence of the model is finite.
\<close>

datatype 's step =
    Done 's
  | Throw error 's
  | Yield jsval 's "'s \<Rightarrow> 's step"

type_synonym 's generator = "'s \<Rightarrow> 's step"

text \<open>The iterator over the elements of an array (or of any built-in finite collection).\<close>

primrec values_iterator :: "jsval list \<Rightarrow> 's generator" where
  "values_iterator [] s = Done s"
| "values_iterator (x # xs) s = Yield x s (values_iterator xs)"

text \<open>
  \<^verbatim>\<open>Symbol.iterator in value\<close>. The operator throws a \<^verbatim>\<open>TypeError\<close> when its right operand
  is not an object; on an object it answers whether the object has the property, its own
  or inherited (every array inherits one), whatever the property holds.
\<close>

definition in_operator_error :: error where
  "in_operator_error = TypeError ''cannot use the in operator on a value that is not an object''"

definition HasProperty_Symbol_iterator :: "jsval \<Rightarrow> bool" where
  "HasProperty_Symbol_iterator v = (case v of
      Arr a xs \<Rightarrow> True
    | Obj a ps ip \<Rightarrow> ip \<noteq> Absent
    | _ \<Rightarrow> False)"

definition Symbol_iterator_in :: "jsval \<Rightarrow> error + bool" where
  "Symbol_iterator_in v =
     (if is_object v then Inr (HasProperty_Symbol_iterator v) else Inl in_operator_error)"

text \<open>
  \<^verbatim>\<open>value[Symbol.iterator]\<close>: reading the property throws on undefined and null, finds
  nothing on numbers and booleans, and finds the built-in methods of strings and arrays.
\<close>

definition property_read_error :: error where
  "property_read_error = TypeError ''cannot read properties of undefined or null''"

definition not_iterable_error :: error where
  "not_iterable_error = TypeError ''value is not iterable''"


definition Symbol_iterator_of :: "jsval \<Rightarrow> error + iterator_property" where
  "Symbol_iterator_of v = (case v of
      Undefined \<Rightarrow> Inl property_read_error
    | Null \<Rightarrow> Inl property_read_error
    | Str s \<Rightarrow> Inr (Method (map (\<lambda>c. Str [c]) s))
    | Arr a xs \<Rightarrow> Inr (Method xs)
    | Obj a ps ip \<Rightarrow> Inr ip
    | _ \<Rightarrow> Inr Absent)"

text \<open>
  What a wrapper refers to: a value, or a generator object (a suspended call of one of the
  generator methods below, or the iterator \<^verbatim>\<open>map.values()\<close>). A generator object has a
  \<^verbatim>\<open>Symbol.iterator\<close> method that returns the generator itself. The model keeps a
  generator as the function from the state at the first pull to its steps, and so does not
  record that a generator object, once drained, stays drained.
\<close>

datatype 's iterable = Value jsval | Generator "'s generator"

text \<open>
  The host's GetIterator, which a \<^verbatim>\<open>for (const item of x)\<close> loop, \<^verbatim>\<open>new Map(x)\<close> and
  \<^verbatim>\<open>Object.fromEntries(x)\<close> start with: a \<^verbatim>\<open>TypeError\<close> unless the property holds a method.
\<close>

definition GetIterator :: "'s iterable \<Rightarrow> error + 's generator" where
  "GetIterator x = (case x of
      Generator g \<Rightarrow> Inr g
    | Value v \<Rightarrow> (case Symbol_iterator_of v of
          Inl e \<Rightarrow> Inl not_iterable_error
        | Inr (Method xs) \<Rightarrow> Inr (values_iterator xs)
        | Inr ip \<Rightarrow> Inl not_iterable_error))"

text \<open>The steps a loop \<^verbatim>\<open>for (const item of x)\<close> walks, started in state \<open>s\<close>.\<close>

definition for_of :: "'s iterable \<Rightarrow> 's generator" where
  "for_of x s = (case GetIterator x of Inl e \<Rightarrow> Throw e s | Inr g \<Rightarrow> g s)"

text \<open>
  What a consumer receives that pulls a sequence to its end and keeps the elements: the
  list of them, or the error that ended the sequence, and the state left behind.
\<close>

primrec collect :: "'s step \<Rightarrow> (error + jsval list) \<times> 's" where
  "collect (Done s) = (Inr [], s)"
| "collect (Throw e s) = (Inl e, s)"
| "collect (Yield item s rest) =
     (case collect (rest s) of
        (Inl e, s') \<Rightarrow> (Inl e, s')
      | (Inr items, s') \<Rightarrow> (Inr (item # items), s'))"

text \<open>
  The iteration capability of the specification's glossary: the value can produce a sequence
  of elements on demand.
\<close>

definition iteration_capability :: "jsval \<Rightarrow> bool" where
  "iteration_capability v = (case Symbol_iterator_of v of Inr (Method xs) \<Rightarrow> True | _ \<Rightarrow> False)"

section \<open>The wrapper and its construction\<close>

text \<open>
  \<^verbatim>\<open>const isIterator = function(value) { return (Symbol.iterator in value); };\<close>
\<close>

definition isIterator :: "'s iterable \<Rightarrow> error + bool" where
  "isIterator x = (case x of Generator g \<Rightarrow> Inr True | Value v \<Rightarrow> Symbol_iterator_in v)"

text \<open>The wrapper object \<^verbatim>\<open>{ ref: value, __proto__: this }\<close>.\<close>

record 's Iterator =
  ref :: "'s iterable"

definition not_an_iterator :: error where
  "not_an_iterator = TypeError ''value is does not implement iterator!''"

text \<open>
  \<^verbatim>\<open>new(value) { if (!isIterator(value)) { throw new TypeError(...); } return { ref: value, __proto__: this }; }\<close>
\<close>

definition new :: "'s iterable \<Rightarrow> error + 's Iterator" where
  "new x = (case isIterator x of
      Inl e \<Rightarrow> Inl e
    | Inr b \<Rightarrow> if \<not> b then Inl not_an_iterator else Inr \<lparr>ref = x\<rparr>)"


section \<open>Callbacks\<close>

text \<open>
  A callback is a function of the user's: it may change the user's state and it may throw.
  The index it receives is a number of the host, here an integer.
\<close>

type_synonym ('a, 's) eff = "'s \<Rightarrow> (error + 'a) \<times> 's"

type_synonym 's Callback = "jsval \<Rightarrow> int \<Rightarrow> (jsval, 's) eff"

text \<open>A parameter with a default value: the default stands in when the argument is left out.\<close>

definition default_param :: "'a \<Rightarrow> 'a option \<Rightarrow> 'a" where
  "default_param d arg = (case arg of None \<Rightarrow> d | Some a \<Rightarrow> a)"

section \<open>The chain operations\<close>




text \<open>
  \<^verbatim>\<open>*rawFilter(lambda) { let index = 0; for (const item of this.ref) {
      const keep = lambda(item, index); index += 1; if (!keep) { continue; } yield item; } }\<close>
\<close>

primrec rawFilter_loop :: "'s Callback \<Rightarrow> int \<Rightarrow> 's step \<Rightarrow> 's step" where
  "rawFilter_loop lambda index (Done s) = Done s"
| "rawFilter_loop lambda index (Throw e s) = Throw e s"
| "rawFilter_loop lambda index (Yield item s rest) =
     (case lambda item index s of
        (Inl e, s') \<Rightarrow> Throw e s'
      | (Inr keep, s') \<Rightarrow>
          if \<not> truthy keep then rawFilter_loop lambda (index + 1) (rest s')
          else Yield item s' (\<lambda>s''. rawFilter_loop lambda (index + 1) (rest s'')))"

definition rawFilter :: "'s Callback \<Rightarrow> 's Iterator \<Rightarrow> 's generator" where
  "rawFilter lambda this s = rawFilter_loop lambda 0 (for_of (ref this) s)"


text \<open>
  \<^verbatim>\<open>for (const inner of g) { yield inner; }\<close> inside a generator: every element of the inner
  sequence is yielded in turn, an error of the inner sequence ends the generator, and when
  the inner sequence is done the generator goes on with what follows the loop.
\<close>

primrec yield_each :: "'s step \<Rightarrow> 's generator \<Rightarrow> 's step" where
  "yield_each (Done s) continue = continue s"
| "yield_each (Throw e s) continue = Throw e s"
| "yield_each (Yield inner s rest) continue = Yield inner s (\<lambda>s'. yield_each (rest s') continue)"

text \<open>The steps of a sequence are smaller than the step that yields them.\<close>

definition resumed :: "('s step \<times> 's step) set" where
  "resumed = {(r, st). \<exists>item s rest s'. st = Yield item s rest \<and> r = rest s'}"

lemma wf_resumed: "wf (resumed :: ('s step \<times> 's step) set)"
proof (rule wfUNIVI)
  fix P :: "'s step \<Rightarrow> bool" and x
  assume H: "\<forall>x. (\<forall>y. (y, x) \<in> resumed \<longrightarrow> P y) \<longrightarrow> P x"
  show "P x"
  proof (induction x)
    case (Done s)
    show ?case by (rule H[rule_format]) (simp add: resumed_def)
  next
    case (Throw e s)
    show ?case by (rule H[rule_format]) (simp add: resumed_def)
  next
    case (Yield item s rest)
    show ?case
    proof (rule H[rule_format])
      fix y assume "(y, Yield item s rest) \<in> resumed"
      then obtain s' where "y = rest s'" by (auto simp: resumed_def)
      then show "P y" using Yield.IH by (simp add: rangeI)
    qed
  qed
qed

text \<open>
  \<^verbatim>\<open>*rawFlat(depth = 1) { for (const item of this.ref) {
      if (depth === 0) { yield item; continue; }
      if (!isIterator(item)) { yield item; continue; }
      const innerIter = Iterator.new(item);
      for (const inner of innerIter.rawFlat(depth - 1)) { yield inner; } } }\<close>

  The depth is a natural number, as the interface asks for. The loop calls itself on the
  rest of the sequence with the same depth, and on the elements of an item with a smaller
  one.
\<close>

function rawFlat_loop :: "nat \<Rightarrow> 's step \<Rightarrow> 's step" where
  "rawFlat_loop depth (Done s) = Done s"
| "rawFlat_loop depth (Throw e s) = Throw e s"
| "rawFlat_loop depth (Yield item s rest) =
     (if depth = 0 then Yield item s (\<lambda>s'. rawFlat_loop depth (rest s'))
      else (case isIterator (Value item :: 's iterable) of
          Inl e \<Rightarrow> Throw e s
        | Inr b \<Rightarrow>
            if \<not> b then Yield item s (\<lambda>s'. rawFlat_loop depth (rest s'))
            else (case new (Value item) of
                Inl e \<Rightarrow> Throw e s
              | Inr innerIter \<Rightarrow>
                  yield_each (rawFlat_loop (depth - 1) (for_of (ref innerIter) s))
                    (\<lambda>s'. rawFlat_loop depth (rest s')))))"
  by pat_completeness auto
termination
  apply (relation "less_than <*lex*> resumed")
    apply (intro wf_lex_prod wf_less_than wf_resumed)
   apply (auto simp: resumed_def)
  done

definition rawFlat :: "nat option \<Rightarrow> 's Iterator \<Rightarrow> 's generator" where
  "rawFlat depth this s = rawFlat_loop (default_param 1 depth) (for_of (ref this) s)"

text \<open>\<^verbatim>\<open>flat(depth = 1) { return Iterator.new(this.rawFlat(depth)); }\<close>\<close>

definition flat :: "nat option \<Rightarrow> 's Iterator \<Rightarrow> error + 's Iterator" where
  "flat depth this = new (Generator (rawFlat (Some (default_param 1 depth)) this))"


section \<open>The terminal operations\<close>



text \<open>
  \<^verbatim>\<open>reduce(lambda, initial) { let index = 0; for (const item of this.ref) {
      initial = lambda(initial, item, index); index += 1; } return initial; }\<close>
\<close>

primrec reduce_loop ::
  "('a \<Rightarrow> jsval \<Rightarrow> int \<Rightarrow> ('a, 's) eff) \<Rightarrow> 'a \<Rightarrow> int \<Rightarrow> 's step \<Rightarrow> (error + 'a) \<times> 's" where
  "reduce_loop lambda initial index (Done s) = (Inr initial, s)"
| "reduce_loop lambda initial index (Throw e s) = (Inl e, s)"
| "reduce_loop lambda initial index (Yield item s rest) =
     (case lambda initial item index s of
        (Inl e, s') \<Rightarrow> (Inl e, s')
      | (Inr acc, s') \<Rightarrow> reduce_loop lambda acc (index + 1) (rest s'))"

definition reduce ::
  "('a \<Rightarrow> jsval \<Rightarrow> int \<Rightarrow> ('a, 's) eff) \<Rightarrow> 'a \<Rightarrow> 's Iterator \<Rightarrow> ('a, 's) eff" where
  "reduce lambda initial this s = reduce_loop lambda initial 0 (for_of (ref this) s)"

text \<open>
  \<^verbatim>\<open>find(lambda) { let index = -1; for (const item of this.ref) {
      index += 1; if (!lambda(item, index)) { continue; } return item; } }\<close>

  A function that ends without \<^verbatim>\<open>return\<close> returns undefined. Leaving the loop early
  closes the iterator, which never resumes it.
\<close>

primrec find_loop :: "'s Callback \<Rightarrow> int \<Rightarrow> 's step \<Rightarrow> (error + jsval) \<times> 's" where
  "find_loop lambda index (Done s) = (Inr Undefined, s)"
| "find_loop lambda index (Throw e s) = (Inl e, s)"
| "find_loop lambda index (Yield item s rest) =
     (case lambda item (index + 1) s of
        (Inl e, s') \<Rightarrow> (Inl e, s')
      | (Inr found, s') \<Rightarrow>
          if \<not> truthy found then find_loop lambda (index + 1) (rest s')
          else (Inr item, s'))"

definition find_iter :: "'s Callback \<Rightarrow> 's Iterator \<Rightarrow> (jsval, 's) eff" where
  "find_iter lambda this s = find_loop lambda (- 1) (for_of (ref this) s)"

text \<open>
  \<^verbatim>\<open>findIndex(lambda) { let index = -1; for (const item of this.ref) {
      index += 1; if (!lambda(item, index)) { continue; } return index; } }\<close>
\<close>

primrec findIndex_loop :: "'s Callback \<Rightarrow> int \<Rightarrow> 's step \<Rightarrow> (error + jsval) \<times> 's" where
  "findIndex_loop lambda index (Done s) = (Inr Undefined, s)"
| "findIndex_loop lambda index (Throw e s) = (Inl e, s)"
| "findIndex_loop lambda index (Yield item s rest) =
     (case lambda item (index + 1) s of
        (Inl e, s') \<Rightarrow> (Inl e, s')
      | (Inr found, s') \<Rightarrow>
          if \<not> truthy found then findIndex_loop lambda (index + 1) (rest s')
          else (Inr (Num (index + 1)), s'))"

definition findIndex :: "'s Callback \<Rightarrow> 's Iterator \<Rightarrow> (jsval, 's) eff" where
  "findIndex lambda this s = findIndex_loop lambda (- 1) (for_of (ref this) s)"

text \<open>
  \<^verbatim>\<open>includes(value, fromIndex = 0) {
      return !!this.find((item, index) => { return item === value && index >= fromIndex; }); }\<close>
\<close>

definition includes_iter :: "jsval \<Rightarrow> int option \<Rightarrow> 's Iterator \<Rightarrow> (bool, 's) eff" where
  "includes_iter v fromIndex this s =
     (case find_iter
         (\<lambda>item index s'. (Inr (Bool (strict_equals item v \<and> index \<ge> default_param 0 fromIndex)), s'))
         this s of
        (Inl e, s') \<Rightarrow> (Inl e, s')
      | (Inr found, s') \<Rightarrow> (Inr (truthy found), s'))"


section \<open>The host's Map and plain objects\<close>

text \<open>
  A \<^verbatim>\<open>Map\<close> keeps its entries in the order in which their keys were first set; \<^verbatim>\<open>set\<close> on
  a key it already holds replaces the value where the entry stands. Keys are compared by
  SameValueZero. \<^verbatim>\<open>get\<close> answers undefined for a key it does not hold.
\<close>

type_synonym jsmap = "(jsval \<times> jsval) list"

primrec map_get :: "jsmap \<Rightarrow> jsval \<Rightarrow> jsval" where
  "map_get [] k = Undefined"
| "map_get (e # m) k = (if same_value_zero (fst e) k then snd e else map_get m k)"

primrec map_set :: "jsval \<Rightarrow> jsval \<Rightarrow> jsmap \<Rightarrow> jsmap" where
  "map_set k v [] = [(k, v)]"
| "map_set k v (e # m) =
     (if same_value_zero (fst e) k then (fst e, v) # m else e # map_set k v m)"

definition map_values :: "jsmap \<Rightarrow> jsval list" where
  "map_values m = map snd m"

text \<open>The decimal numeral of an integer, as the host prints it (below \<open>10 ^ 21\<close>).\<close>

fun string_of_nat :: "nat \<Rightarrow> string" where
  "string_of_nat n =
     (if n < 10 then [''0123456789'' ! n]
      else string_of_nat (n div 10) @ [''0123456789'' ! (n mod 10)])"

declare string_of_nat.simps [simp del]

definition string_of_int :: "int \<Rightarrow> string" where
  "string_of_int i = (if i < 0 then CHR ''-'' # string_of_nat (nat (- i)) else string_of_nat (nat i))"

text \<open>
  \<^verbatim>\<open>object[key]\<close> on an object: an own data property, an element of an array under the
  numeral of its index, the length of an array, and undefined otherwise.
\<close>

definition Get :: "jsval \<Rightarrow> string \<Rightarrow> jsval" where
  "Get object key = (case object of
      Arr a xs \<Rightarrow> (case map_of (zip (map string_of_nat [0..<length xs]) xs) key of
          Some v \<Rightarrow> v
        | None \<Rightarrow> if key = ''length'' then Num (int (length xs)) else Undefined)
    | Obj a ps ip \<Rightarrow> (case map_of ps key of Some v \<Rightarrow> v | None \<Rightarrow> Undefined)
    | _ \<Rightarrow> Undefined)"

text \<open>
  ToString, which turns a key into a property name. An array prints its elements joined by
  commas, undefined and null elements as nothing. An ordinary object prints as
  \<^verbatim>\<open>[object Object]\<close> through the inherited \<^verbatim>\<open>toString\<close>; an own property of that name
  holds no function here, and then the conversion throws.
\<close>

definition to_primitive_error :: error where
  "to_primitive_error = TypeError ''cannot convert object to primitive value''"

fun ToString :: "jsval \<Rightarrow> error + string"
  and join :: "jsval list \<Rightarrow> error + string" where
  "ToString Undefined = Inr ''undefined''"
| "ToString Null = Inr ''null''"
| "ToString (Bool b) = Inr (if b then ''true'' else ''false'')"
| "ToString (Num n) = Inr (string_of_int n)"
| "ToString NaN = Inr ''NaN''"
| "ToString (Str s) = Inr s"
| "ToString (Arr a xs) = join xs"
| "ToString (Obj a ps ip) =
     (if map_of ps ''toString'' \<noteq> None then Inl to_primitive_error else Inr ''[object Object]'')"
| "join [] = Inr []"
| "join (x # xs) =
     (case (if x = Undefined \<or> x = Null then Inr [] else ToString x) of
        Inl e \<Rightarrow> Inl e
      | Inr h \<Rightarrow>
          if xs = [] then Inr h
          else (case join xs of Inl e \<Rightarrow> Inl e | Inr t \<Rightarrow> Inr (h @ '','' @ t)))"

definition entry_error :: error where
  "entry_error = TypeError ''iterator value is not an entry object''"

text \<open>
  \<^verbatim>\<open>new Map(iterable)\<close>: an empty map for undefined and null; otherwise every item of the
  iteration must be an object, and its properties \<^verbatim>\<open>0\<close> and \<^verbatim>\<open>1\<close> are set as key and value.
\<close>

primrec Map_loop :: "jsmap \<Rightarrow> 's step \<Rightarrow> (error + jsmap) \<times> 's" where
  "Map_loop m (Done s) = (Inr m, s)"
| "Map_loop m (Throw e s) = (Inl e, s)"
| "Map_loop m (Yield item s rest) =
     (if \<not> is_object item then (Inl entry_error, s)
      else Map_loop (map_set (Get item ''0'') (Get item ''1'') m) (rest s))"

definition Map_constructor :: "'s iterable \<Rightarrow> (jsmap, 's) eff" where
  "Map_constructor x s = (case x of
      Generator g \<Rightarrow> Map_loop [] (for_of x s)
    | Value v \<Rightarrow> if v = Undefined \<or> v = Null then (Inr [], s) else Map_loop [] (for_of x s))"

text \<open>
  \<^verbatim>\<open>Object.fromEntries(iterable)\<close>: as above, with the key turned into a property name. The
  result is a record: a finite map from property names to values.
\<close>

primrec fromEntries_loop ::
  "(string \<rightharpoonup> jsval) \<Rightarrow> 's step \<Rightarrow> (error + (string \<rightharpoonup> jsval)) \<times> 's" where
  "fromEntries_loop obj (Done s) = (Inr obj, s)"
| "fromEntries_loop obj (Throw e s) = (Inl e, s)"
| "fromEntries_loop obj (Yield item s rest) =
     (if \<not> is_object item then (Inl entry_error, s)
      else (case ToString (Get item ''0'') of
          Inl e \<Rightarrow> (Inl e, s)
        | Inr k \<Rightarrow> fromEntries_loop (obj(k \<mapsto> Get item ''1'')) (rest s)))"

definition Object_fromEntries :: "'s iterable \<Rightarrow> (string \<rightharpoonup> jsval, 's) eff" where
  "Object_fromEntries x s = fromEntries_loop Map.empty (for_of x s)"










section \<open>Dedupe and the sinks\<close>

text \<open>
  \<^verbatim>\<open>dedupe(identify = item => item, merge = existing => existing) {
      const map = this.reduce((map, next) => {
          const id = identify(next);
          const existing = map.get(id);
          if (existing ?? true) { map.set(id, next); return map; }
          map.set(id, merge(existing, next) ?? existing);
          return map;
      }, new Map());
      return Iterator.new(map.values()); }\<close>
\<close>

definition dedupe_callback ::
  "(jsval \<Rightarrow> (jsval, 's) eff) \<Rightarrow> (jsval \<Rightarrow> jsval \<Rightarrow> (jsval, 's) eff) \<Rightarrow>
   jsmap \<Rightarrow> jsval \<Rightarrow> int \<Rightarrow> (jsmap, 's) eff" where
  "dedupe_callback identify merge m next index s =
     (case identify next s of
        (Inl e, s1) \<Rightarrow> (Inl e, s1)
      | (Inr key, s1) \<Rightarrow>
          (let existing = map_get m key in
           if truthy (nullish_coalesce existing (Bool True)) then (Inr (map_set key next m), s1)
           else (case merge existing next s1 of
               (Inl e, s2) \<Rightarrow> (Inl e, s2)
             | (Inr merged, s2) \<Rightarrow>
                 (Inr (map_set key (nullish_coalesce merged existing) m), s2))))"

definition dedupe ::
  "(jsval \<Rightarrow> (jsval, 's) eff) option \<Rightarrow> (jsval \<Rightarrow> jsval \<Rightarrow> (jsval, 's) eff) option \<Rightarrow>
   's Iterator \<Rightarrow> ('s Iterator, 's) eff" where
  "dedupe identify merge this s =
     (case reduce
         (dedupe_callback
           (default_param (\<lambda>item s'. (Inr item, s')) identify)
           (default_param (\<lambda>existing next s'. (Inr existing, s')) merge))
         [] this s of
        (Inl e, s') \<Rightarrow> (Inl e, s')
      | (Inr m, s') \<Rightarrow> (new (Generator (values_iterator (map_values m))), s'))"



text \<open>\<^verbatim>\<open>intoMap() { return new Map(this.ref); }\<close>\<close>

definition intoMap :: "'s Iterator \<Rightarrow> (jsmap, 's) eff" where
  "intoMap this s = Map_constructor (ref this) s"

text \<open>\<^verbatim>\<open>intoObject() { return Object.fromEntries(this.ref); }\<close>\<close>

definition intoObject :: "'s Iterator \<Rightarrow> (string \<rightharpoonup> jsval, 's) eff" where
  "intoObject this s = Object_fromEntries (ref this) s"

section \<open>Instruments of the examples\<close>


text \<open>The predicate \<^verbatim>\<open>x => typeof x === 'number' && x % 2 === 0\<close>, keeping the even numbers.\<close>

definition keep_evens :: "jsval \<Rightarrow> int \<Rightarrow> jsval" where
  "keep_evens item index = (case item of Num n \<Rightarrow> Bool (n mod 2 = 0) | _ \<Rightarrow> Bool False)"

text \<open>The entry \<^verbatim>\<open>[key, value]\<close>, an array of two elements at address \<open>a\<close>.\<close>

definition entry :: "nat \<times> jsval \<times> jsval \<Rightarrow> jsval" where
  "entry e = (case e of (a, k, v) \<Rightarrow> Arr a [k, v])"

text \<open>Keys no two of which a \<^verbatim>\<open>Map\<close> takes for the same key.\<close>

primrec distinct_keys :: "jsval list \<Rightarrow> bool" where
  "distinct_keys [] = True"
| "distinct_keys (k # ks) = (list_all (\<lambda>k'. \<not> same_value_zero k k') ks \<and> distinct_keys ks)"

text \<open>A callback without side effects that never throws.\<close>

definition pure_callback :: "(jsval \<Rightarrow> int \<Rightarrow> jsval) \<Rightarrow> 's Callback" where
  "pure_callback f item index s = (Inr (f item index), s)"

text \<open>
  A callback that records each invocation: it computes \<open>f\<close> and appends the item and the
  index it was called with to the log that is the state.
\<close>

definition recording :: "(jsval \<Rightarrow> int \<Rightarrow> jsval) \<Rightarrow> (jsval \<times> int) list Callback" where
  "recording f item index calls = (Inr (f item index), calls @ [(item, index)])"

section \<open>Basic facts\<close>

lemma default_param_simps [simp]:
  "default_param d None = d" "default_param d (Some a) = a"
  by (simp_all add: default_param_def)

lemma for_of_Arr [simp]: "for_of (Value (Arr a xs)) s = values_iterator xs s"
  by (simp add: for_of_def GetIterator_def Symbol_iterator_of_def)

lemma for_of_Generator [simp]: "for_of (Generator g) s = g s"
  by (simp add: for_of_def GetIterator_def)

lemma for_of_NonFunction [simp]:
  "for_of (Value (Obj a ps (NonFunction x))) s = Throw not_iterable_error s"
  by (simp add: for_of_def GetIterator_def Symbol_iterator_of_def)

lemma new_Generator [simp]: "new (Generator g) = Inr \<lparr>ref = Generator g\<rparr>"
  by (simp add: new_def isIterator_def)


lemma new_primitive: "\<not> is_object v \<Longrightarrow> new (Value v) = Inl in_operator_error"
  by (simp add: new_def isIterator_def Symbol_iterator_in_def)

lemma isIterator_Num [simp]: "isIterator (Value (Num n)) = Inl in_operator_error"
  by (simp add: isIterator_def Symbol_iterator_in_def is_object_def)

lemma isIterator_Arr [simp]: "isIterator (Value (Arr a xs)) = Inr True"
  by (simp add: isIterator_def Symbol_iterator_in_def is_object_def HasProperty_Symbol_iterator_def)

lemma new_Arr [simp]: "new (Value (Arr a xs)) = Inr \<lparr>ref = Value (Arr a xs)\<rparr>"
  by (simp add: new_def)

lemma collect_values_iterator [simp]: "collect (values_iterator xs s) = (Inr xs, s)"
  by (induction xs) simp_all

lemma strict_equals_truthy: "strict_equals x v \<Longrightarrow> truthy x = truthy v"
  by (cases x; cases v) (auto simp: strict_equals_def truthy_def)

lemma strict_equals_NaN [simp]: "strict_equals x NaN = False"
  by (cases x) (auto simp: strict_equals_def)

section \<open>Construction\<close>

text \<open>
  Claim C7, as amended. For every object \<open>v\<close> (an array or an ordinary object),
  construction raises the \<^verbatim>\<open>TypeError\<close> of \<^verbatim>\<open>new\<close> if and only if \<open>v\<close> has no
  \<^verbatim>\<open>Symbol.iterator\<close> property; when the property is there, whatever it holds,
  construction returns a wrapper whose \<^verbatim>\<open>ref\<close> is \<open>v\<close> itself. Construction takes no state
  and returns none: it pulls no element.
\<close>

theorem new_checks_presence_on_objects:
  assumes "is_object v"
  shows "new (Value v) =
    (if HasProperty_Symbol_iterator v then Inr \<lparr>ref = Value v\<rparr> else Inl not_an_iterator)"
  using assms by (simp add: new_def isIterator_def Symbol_iterator_in_def)

theorem new_checks_presence_on_objects_witness:
  "is_object (Arr 0 [Num 1, Num 2]) \<and>
   new (Value (Arr 0 [Num 1, Num 2]) :: unit iterable) = Inr \<lparr>ref = Value (Arr 0 [Num 1, Num 2])\<rparr> \<and>
   is_object (Obj 1 [(''a'', Num 1)] Absent) \<and>
   new (Value (Obj 1 [(''a'', Num 1)] Absent) :: unit iterable) = Inl not_an_iterator"
  using new_checks_presence_on_objects [of "Arr 0 [Num 1, Num 2]"]
    new_checks_presence_on_objects [of "Obj 1 [(''a'', Num 1)] Absent"]
  by (simp add: is_object_def HasProperty_Symbol_iterator_def)

text \<open>
  Claim C7 as stated fails: an object whose \<^verbatim>\<open>Symbol.iterator\<close> property holds the
  number 5 cannot produce a sequence, so it lacks the iteration capability, and yet
  construction raises nothing and returns a wrapper.
\<close>

theorem new_accepts_object_without_capability:
  "\<not> iteration_capability (Obj 0 [] (NonFunction (Num 5))) \<and>
   new (Value (Obj 0 [] (NonFunction (Num 5))) :: unit iterable) =
     Inr \<lparr>ref = Value (Obj 0 [] (NonFunction (Num 5)))\<rparr>"
  by (simp add: iteration_capability_def Symbol_iterator_of_def new_def isIterator_def
      Symbol_iterator_in_def is_object_def HasProperty_Symbol_iterator_def)



section \<open>Searching\<close>

text \<open>
  The scan of \<^verbatim>\<open>find\<close> and \<^verbatim>\<open>findIndex\<close> over an array, for a predicate without side
  effects: undefined when no element matches, and the first matching element (its index)
  otherwise. The callback sees the positions \<open>0, 1, 2, ...\<close> when the scan starts at
  \<open>index = -1\<close>.
\<close>

lemma find_loop_no_match:
  "(\<And>k. k < length xs \<Longrightarrow> \<not> truthy (p (xs ! k) (index + 1 + int k))) \<Longrightarrow>
   find_loop (pure_callback p) index (values_iterator xs s) = (Inr Undefined, s)"
proof (induction xs arbitrary: index)
  case Nil
  show ?case by simp
next
  case (Cons x xs)
  have head: "\<not> truthy (p x (index + 1))"
    using Cons.prems[of 0] by simp
  have tail: "\<not> truthy (p (xs ! k) (index + 1 + 1 + int k))" if "k < length xs" for k
    using Cons.prems[of "Suc k"] that by (simp add: algebra_simps)
  show ?case
    using head Cons.IH[of "index + 1"] tail by (simp add: pure_callback_def)
qed

lemma find_loop_first_match:
  "k < length xs \<Longrightarrow> truthy (p (xs ! k) (index + 1 + int k)) \<Longrightarrow>
   (\<And>j. j < k \<Longrightarrow> \<not> truthy (p (xs ! j) (index + 1 + int j))) \<Longrightarrow>
   find_loop (pure_callback p) index (values_iterator xs s) = (Inr (xs ! k), s)"
proof (induction xs arbitrary: index k)
  case Nil
  then show ?case by simp
next
  case (Cons x xs)
  show ?case
  proof (cases k)
    case 0
    then show ?thesis using Cons.prems(2) by (simp add: pure_callback_def)
  next
    case (Suc k')
    have head: "\<not> truthy (p x (index + 1))"
      using Cons.prems(3)[of 0] Suc by simp
    have len: "k' < length xs" using Cons.prems(1) Suc by simp
    have hit: "truthy (p (xs ! k') (index + 1 + 1 + int k'))"
      using Cons.prems(2) Suc by (simp add: algebra_simps)
    have before: "\<not> truthy (p (xs ! j) (index + 1 + 1 + int j))" if "j < k'" for j
      using Cons.prems(3)[of "Suc j"] that Suc by (simp add: algebra_simps)
    show ?thesis
      using head Cons.IH[of k' "index + 1", OF len hit before] Suc
      by (simp add: pure_callback_def)
  qed
qed

lemma findIndex_loop_no_match:
  "(\<And>k. k < length xs \<Longrightarrow> \<not> truthy (p (xs ! k) (index + 1 + int k))) \<Longrightarrow>
   findIndex_loop (pure_callback p) index (values_iterator xs s) = (Inr Undefined, s)"
proof (induction xs arbitrary: index)
  case Nil
  show ?case by simp
next
  case (Cons x xs)
  have head: "\<not> truthy (p x (index + 1))"
    using Cons.prems[of 0] by simp
  have tail: "\<not> truthy (p (xs ! k) (index + 1 + 1 + int k))" if "k < length xs" for k
    using Cons.prems[of "Suc k"] that by (simp add: algebra_simps)
  show ?case
    using head Cons.IH[of "index + 1"] tail by (simp add: pure_callback_def)
qed

lemma findIndex_loop_first_match:
  "k < length xs \<Longrightarrow> truthy (p (xs ! k) (index + 1 + int k)) \<Longrightarrow>
   (\<And>j. j < k \<Longrightarrow> \<not> truthy (p (xs ! j) (index + 1 + int j))) \<Longrightarrow>
   findIndex_loop (pure_callback p) index (values_iterator xs s) = (Inr (Num (index + 1 + int k)), s)"
proof (induction xs arbitrary: index k)
  case Nil
  then show ?case by simp
next
  case (Cons x xs)
  show ?case
  proof (cases k)
    case 0
    then show ?thesis using Cons.prems(2) by (simp add: pure_callback_def)
  next
    case (Suc k')
    have head: "\<not> truthy (p x (index + 1))"
      using Cons.prems(3)[of 0] Suc by simp
    have len: "k' < length xs" using Cons.prems(1) Suc by simp
    have hit: "truthy (p (xs ! k') (index + 1 + 1 + int k'))"
      using Cons.prems(2) Suc by (simp add: algebra_simps)
    have before: "\<not> truthy (p (xs ! j) (index + 1 + 1 + int j))" if "j < k'" for j
      using Cons.prems(3)[of "Suc j"] that Suc by (simp add: algebra_simps)
    show ?thesis
      using head Cons.IH[of k' "index + 1", OF len hit before] Suc
      by (simp add: pure_callback_def algebra_simps)
  qed
qed

lemma includes_callback_pure:
  "(\<lambda>item index s'. (Inr (Bool (strict_equals item v \<and> index \<ge> from)), s')) =
   pure_callback (\<lambda>item index. Bool (strict_equals item v \<and> index \<ge> from))"
  by (simp add: pure_callback_def fun_eq_iff)

lemma includes_iter_array:
  "includes_iter v fromIndex \<lparr>ref = Value (Arr a xs)\<rparr> s =
     (Inr (truthy v \<and> (\<exists>k<length xs. strict_equals (xs ! k) v \<and> int k \<ge> default_param 0 fromIndex)), s)"
proof -
  let ?from = "default_param 0 fromIndex"
  let ?p = "\<lambda>item index. Bool (strict_equals item v \<and> index \<ge> ?from)"
  let ?hit = "\<lambda>k. k < length xs \<and> strict_equals (xs ! k) v \<and> int k \<ge> ?from"
  have unfold: "includes_iter v fromIndex \<lparr>ref = Value (Arr a xs)\<rparr> s =
      (case find_loop (pure_callback ?p) (- 1) (values_iterator xs s) of
         (Inl e, s') \<Rightarrow> (Inl e, s') | (Inr found, s') \<Rightarrow> (Inr (truthy found), s'))"
    by (simp add: includes_iter_def find_iter_def includes_callback_pure)
  show ?thesis
  proof (cases "\<exists>k. ?hit k")
    case True
    define k where "k = (LEAST k. ?hit k)"
    have hit: "?hit k" unfolding k_def using True by (rule LeastI_ex)
    have least: "\<not> ?hit j" if "j < k" for j
      using that not_less_Least unfolding k_def by blast
    have "find_loop (pure_callback ?p) (- 1) (values_iterator xs s) = (Inr (xs ! k), s)"
    proof (rule find_loop_first_match)
      show "k < length xs" using hit by simp
      show "truthy (?p (xs ! k) (- 1 + 1 + int k))" using hit by (simp add: truthy_def)
      fix j assume "j < k"
      then have "\<not> ?hit j" by (rule least)
      moreover have "j < length xs" using \<open>j < k\<close> hit by simp
      ultimately show "\<not> truthy (?p (xs ! j) (- 1 + 1 + int j))" by (simp add: truthy_def)
    qed
    moreover have "truthy (xs ! k) = truthy v" using hit by (simp add: strict_equals_truthy)
    ultimately show ?thesis using unfold hit by auto
  next
    case False
    have "find_loop (pure_callback ?p) (- 1) (values_iterator xs s) = (Inr Undefined, s)"
    proof (rule find_loop_no_match)
      fix k assume "k < length xs"
      then show "\<not> truthy (?p (xs ! k) (- 1 + 1 + int k))" using False by (auto simp: truthy_def)
    qed
    then show ?thesis using unfold False by (auto simp: truthy_def)
  qed
qed

lemma find_loop_never:
  "(case find_loop (\<lambda>item index s'. (Inr (Bool False), s')) index st of
      (Inl e, s') \<Rightarrow> True | (Inr found, s') \<Rightarrow> found = Undefined)"
  by (induction st arbitrary: index) (simp_all add: truthy_def)


text \<open>
  Claim C3 (the code departs from it). \<^verbatim>\<open>findIndex\<close> has no \<^verbatim>\<open>return\<close> after its loop:
  on an empty sequence, and on a sequence no element of which matches, it returns undefined
  and not \<open>-1\<close>.
\<close>

theorem findIndex_without_match_is_undefined:
  "findIndex lambda \<lparr>ref = Value (Arr a [])\<rparr> s = (Inr Undefined, s) \<and>
   findIndex (pure_callback (\<lambda>item index. Bool False)) \<lparr>ref = Value (Arr a xs)\<rparr> s =
     (Inr Undefined, s)"
  by (simp add: findIndex_def findIndex_loop_no_match truthy_def)

text \<open>
  Claim C4 (the code departs from it). \<^verbatim>\<open>includes\<close> returns \<^verbatim>\<open>!!\<close> of the element that
  \<^verbatim>\<open>find\<close> returns, not whether \<^verbatim>\<open>find\<close> found one: for the falsy values \<open>0\<close>, the empty
  string and \<^verbatim>\<open>false\<close> it answers false although the sequence holds a strictly equal
  element at index 0.
\<close>

theorem includes_misses_falsy_values:
  "includes_iter (Num 0) None \<lparr>ref = Value (Arr a [Num 0])\<rparr> s = (Inr False, s) \<and>
   includes_iter (Str []) None \<lparr>ref = Value (Arr a [Str []])\<rparr> s = (Inr False, s) \<and>
   includes_iter (Bool False) None \<lparr>ref = Value (Arr a [Bool False])\<rparr> s = (Inr False, s) \<and>
   strict_equals (Num 0) (Num 0) \<and> strict_equals (Str []) (Str []) \<and>
   strict_equals (Bool False) (Bool False)"
  by (simp add: includes_iter_def find_iter_def strict_equals_def truthy_def default_param_def)

text \<open>
  Claim C10. \<^verbatim>\<open>includes(NaN, fromIndex)\<close> is false on every array, whatever it holds and
  whatever \<^verbatim>\<open>fromIndex\<close> is, because \<^verbatim>\<open>item === NaN\<close> is false for every item; and on no
  wrapper at all does it return true (a source that throws makes it throw).
\<close>

theorem includes_NaN_is_false:
  "includes_iter NaN fromIndex \<lparr>ref = Value (Arr a xs)\<rparr> s = (Inr False, s) \<and>
   fst (includes_iter NaN fromIndex this s) \<noteq> Inr True"
proof
  show "includes_iter NaN fromIndex \<lparr>ref = Value (Arr a xs)\<rparr> s = (Inr False, s)"
    by (simp add: includes_iter_array)
  have "fst (case find_loop (\<lambda>item index s'. (Inr (Bool False), s')) index st of
      (Inl e, s') \<Rightarrow> (Inl e, s') | (Inr found, s') \<Rightarrow> (Inr (truthy found), s')) \<noteq> Inr True"
    for index and st :: "'a step"
    using find_loop_never[of index st] by (auto split: prod.splits sum.splits simp: truthy_def)
  then show "fst (includes_iter NaN fromIndex this s) \<noteq> Inr True"
    by (simp add: includes_iter_def find_iter_def)
qed

section \<open>Flattening\<close>

lemma rawFlat_loop_0: "collect (rawFlat_loop 0 st) = collect st"
  by (induction st) simp_all

text \<open>
  What \<^verbatim>\<open>rawFlat\<close> does pass through at every depth are the objects without a
  \<^verbatim>\<open>Symbol.iterator\<close> property. Primitives pass only where the depth has reached 0, since
  there the loop does not ask \<^verbatim>\<open>isIterator\<close>: \<^verbatim>\<open>[[1, 2], [3]]\<close> flattens to \<^verbatim>\<open>[1, 2, 3]\<close>.
\<close>

lemma rawFlat_loop_plain_objects:
  "list_all (\<lambda>x. is_object x \<and> \<not> HasProperty_Symbol_iterator x) xs \<Longrightarrow>
   collect (rawFlat_loop depth (values_iterator xs s)) = (Inr xs, s)"
  by (induction xs) (auto simp: isIterator_def Symbol_iterator_in_def)

lemma rawFlat_arrays_of_numbers:
  "collect (rawFlat None \<lparr>ref = Value (Arr 0 [Arr 1 [Num 1, Num 2], Arr 2 [Num 3]])\<rparr> s) =
     (Inr [Num 1, Num 2, Num 3], s)"
  by (simp add: rawFlat_def default_param_def)

text \<open>
  Claim C1 (the code departs from it). \<^verbatim>\<open>rawFlat\<close> asks \<^verbatim>\<open>isIterator(item)\<close> of every
  item when the depth is not 0, and \<^verbatim>\<open>Symbol.iterator in item\<close> throws on a number. On the
  source \<^verbatim>\<open>[1, [2, [3, [4]]]]\<close>, \<^verbatim>\<open>flat(1)\<close>, \<^verbatim>\<open>flat(2)\<close> and \<^verbatim>\<open>flat()\<close> build their wrapper,
  and the first pull throws a \<^verbatim>\<open>TypeError\<close>; only \<^verbatim>\<open>flat(0)\<close> yields what the claim says.
\<close>

theorem flat_throws_on_number_element:
  "(let this = \<lparr>ref = Value (Arr 0 [Num 1, Arr 1 [Num 2, Arr 2 [Num 3, Arr 3 [Num 4]]]])\<rparr> in
     flat (Some 1) this = Inr \<lparr>ref = Generator (rawFlat (Some 1) this)\<rparr> \<and>
     rawFlat (Some 1) this s = Throw in_operator_error s \<and>
     flat (Some 2) this = Inr \<lparr>ref = Generator (rawFlat (Some 2) this)\<rparr> \<and>
     rawFlat (Some 2) this s = Throw in_operator_error s \<and>
     flat None this = Inr \<lparr>ref = Generator (rawFlat (Some 1) this)\<rparr> \<and>
     collect (rawFlat (Some 0) this s) =
       (Inr [Num 1, Arr 1 [Num 2, Arr 2 [Num 3, Arr 3 [Num 4]]]], s))"
  by (simp add: Let_def flat_def rawFlat_def default_param_def rawFlat_loop_0)

section \<open>Dedupe\<close>

text \<open>
  Claim C2 (the code departs from it). The test \<^verbatim>\<open>existing ?? true\<close> is truthy not only when
  the key is new but whenever the stored value is truthy, and every object is: on a repeated
  key the new item overwrites the stored one and \<^verbatim>\<open>merge\<close> is not called. With the default
  merge, the source \<^verbatim>\<open>[{id:1,v:'a'}, {id:2,v:'b'}, {id:1,v:'c'}]\<close> and
  \<^verbatim>\<open>identify = x => x.id\<close>, the result is \<^verbatim>\<open>[{id:1,v:'c'}, {id:2,v:'b'}]\<close>.
\<close>

theorem dedupe_overwrites_truthy_items:
  "(let first = Obj 1 [(''id'', Num 1), (''v'', Str ''a'')] Absent;
        second = Obj 2 [(''id'', Num 2), (''v'', Str ''b'')] Absent;
        third = Obj 3 [(''id'', Num 1), (''v'', Str ''c'')] Absent;
        this = \<lparr>ref = Value (Arr 0 [first, second, third])\<rparr>;
        deduped = \<lparr>ref = Generator (values_iterator [third, second])\<rparr> in
     dedupe (Some (\<lambda>x s'. (Inr (Get x ''id''), s'))) None this s = (Inr deduped, s) \<and>
     collect (for_of (ref deduped) s) = (Inr [third, second], s))"
  by (simp add: Let_def dedupe_def reduce_def dedupe_callback_def default_param_def Get_def
      same_value_zero_def strict_equals_def nullish_coalesce_def truthy_def map_values_def)

section \<open>Filtering\<close>

lemma rawFilter_loop_recording_Yield:
  "rawFilter_loop (recording p) index (Yield x calls rest) =
     (if \<not> truthy (p x index)
      then rawFilter_loop (recording p) (index + 1) (rest (calls @ [(x, index)]))
      else Yield x (calls @ [(x, index)])
        (\<lambda>s''. rawFilter_loop (recording p) (index + 1) (rest s'')))"
  by (simp add: recording_def)

lemma rawFilter_loop_recording:
  "collect (rawFilter_loop (recording p) index (values_iterator xs calls)) =
     (Inr (map fst (filter (\<lambda>(x, i). truthy (p x i))
             (zip xs (map (\<lambda>k. index + int k) [0..<length xs])))),
      calls @ zip xs (map (\<lambda>k. index + int k) [0..<length xs]))"
proof (induction xs arbitrary: index calls)
  case Nil
  show ?case by simp
next
  case (Cons x xs)
  have shift: "map (\<lambda>k. index + int k) [0..<length (x # xs)] =
      index # map (\<lambda>k. index + 1 + int k) [0..<length xs]"
    by (simp add: map_upt_Suc algebra_simps del: upt_Suc)
  show ?case
    unfolding shift
    by (simp add: rawFilter_loop_recording_Yield Cons.IH del: upt_Suc rawFilter_loop.simps)
qed

text \<open>
  Claim C6, as amended. The index passed to the predicate of \<^verbatim>\<open>filter\<close> counts the positions
  of the source, rejected elements included: over an array \<open>xs\<close> the predicate is called once
  per element, in order, with the element and its position in \<open>xs\<close>, and the elements it
  accepts are yielded. Over \<^verbatim>\<open>[10, 20, 30, 40]\<close>, keeping the even numbers keeps all four and
  reports the indices 0, 1, 2, 3: the elements 20 and 40 are reported at 1 and 3.
\<close>

theorem filter_index_counts_source_positions:
  "collect (rawFilter (recording p) \<lparr>ref = Value (Arr a xs)\<rparr> []) =
     (Inr (map fst (filter (\<lambda>(x, i). truthy (p x i)) (zip xs (map int [0..<length xs])))),
      zip xs (map int [0..<length xs])) \<and>
   collect (rawFilter (recording keep_evens) \<lparr>ref = Value (Arr a [Num 10, Num 20, Num 30, Num 40])\<rparr> []) =
     (Inr [Num 10, Num 20, Num 30, Num 40], [(Num 10, 0), (Num 20, 1), (Num 30, 2), (Num 40, 3)])"
proof
  show "collect (rawFilter (recording p) \<lparr>ref = Value (Arr a xs)\<rparr> []) =
     (Inr (map fst (filter (\<lambda>(x, i). truthy (p x i)) (zip xs (map int [0..<length xs])))),
      zip xs (map int [0..<length xs]))"
    using rawFilter_loop_recording[of p 0 xs "[]"] by (simp add: rawFilter_def)
  show "collect (rawFilter (recording keep_evens) \<lparr>ref = Value (Arr a [Num 10, Num 20, Num 30, Num 40])\<rparr> []) =
     (Inr [Num 10, Num 20, Num 30, Num 40], [(Num 10, 0), (Num 20, 1), (Num 30, 2), (Num 40, 3)])"
    by (simp add: rawFilter_def recording_def keep_evens_def truthy_def)
qed

text \<open>
  Claim C6 as stated fails in its example: over \<^verbatim>\<open>[10, 20, 30, 40]\<close> the predicate is never
  called with 20 at index 0 nor with 40 at index 2.
\<close>

theorem filter_reports_20_and_40_at_1_and_3:
  "snd (collect (rawFilter (recording keep_evens)
      \<lparr>ref = Value (Arr 0 [Num 10, Num 20, Num 30, Num 40])\<rparr> [])) =
     [(Num 10, 0), (Num 20, 1), (Num 30, 2), (Num 40, 3)] \<and>
   (Num 20, 0) \<notin> set (snd (collect (rawFilter (recording keep_evens)
      \<lparr>ref = Value (Arr 0 [Num 10, Num 20, Num 30, Num 40])\<rparr> []))) \<and>
   (Num 40, 2) \<notin> set (snd (collect (rawFilter (recording keep_evens)
      \<lparr>ref = Value (Arr 0 [Num 10, Num 20, Num 30, Num 40])\<rparr> [])))"
  by (simp add: rawFilter_def recording_def keep_evens_def truthy_def)

section \<open>Laziness\<close>








section \<open>The sinks\<close>

lemma same_value_zero_identity: "same_value_zero a b = (identity a = identity b)"
  by (cases a; cases b) (auto simp: same_value_zero_def strict_equals_def identity_def)

lemma same_value_zero_refl [simp]: "same_value_zero k k"
  by (simp add: same_value_zero_identity)

lemma same_value_zero_sym: "same_value_zero a b = same_value_zero b a"
  by (auto simp: same_value_zero_identity)

lemma same_value_zero_trans:
  "same_value_zero a b \<Longrightarrow> same_value_zero b c \<Longrightarrow> same_value_zero a c"
  by (simp add: same_value_zero_identity)

lemma map_get_map_set:
  "map_get (map_set k v m) k' = (if same_value_zero k k' then v else map_get m k')"
  by (induction m) (auto simp: same_value_zero_identity)

lemma map_set_fresh:
  "list_all (\<lambda>e. \<not> same_value_zero (fst e) k) m \<Longrightarrow> map_set k v m = m @ [(k, v)]"
  by (induction m) simp_all

lemma distinct_keys_snoc:
  "distinct_keys (ks @ [k]) = (distinct_keys ks \<and> list_all (\<lambda>k'. \<not> same_value_zero k' k) ks)"
  by (induction ks) auto

lemma string_of_nat_0 [simp]: "string_of_nat 0 = ''0''"
  by (simp add: string_of_nat.simps)

lemma string_of_nat_1 [simp]: "string_of_nat (Suc 0) = ''1''"
  by (simp add: string_of_nat.simps)

lemma Get_entry [simp]:
  "Get (entry (a, k, v)) ''0'' = k" "Get (entry (a, k, v)) ''1'' = v"
  by (simp_all add: Get_def entry_def)

lemma is_object_entry [simp]: "is_object (entry e)"
  by (cases e) (simp add: entry_def is_object_def)

lemma Map_loop_entries:
  "Map_loop m (values_iterator (map entry es) s) =
     (Inr (foldl (\<lambda>m e. map_set (fst (snd e)) (snd (snd e)) m) m es), s)"
proof (induction es arbitrary: m)
  case Nil
  show ?case by simp
next
  case (Cons e es)
  obtain a k v where e: "e = (a, k, v)" by (cases e)
  show ?case by (simp add: e Cons.IH)
qed

lemma foldl_map_set_distinct:
  "distinct_keys (map (\<lambda>e. fst (snd e)) es) \<Longrightarrow>
   foldl (\<lambda>m e. map_set (fst (snd e)) (snd (snd e)) m) [] es = map snd es"
proof (induction es rule: rev_induct)
  case Nil
  show ?case by simp
next
  case (snoc e es)
  have d: "distinct_keys (map (\<lambda>e. fst (snd e)) es)"
    and fresh: "list_all (\<lambda>k'. \<not> same_value_zero k' (fst (snd e))) (map (\<lambda>e. fst (snd e)) es)"
    using snoc.prems by (simp_all add: distinct_keys_snoc)
  have "list_all (\<lambda>x. \<not> same_value_zero (fst x) (fst (snd e))) (map snd es)"
    using fresh by (simp add: list_all_iff)
  then show ?case using snoc.IH[OF d] by (simp add: map_set_fresh)
qed

lemma find_append:
  "List.find P (xs @ ys) = (case List.find P xs of None \<Rightarrow> List.find P ys | Some x \<Rightarrow> Some x)"
  by (induction xs) simp_all

lemma map_get_foldl_map_set:
  "map_get (foldl (\<lambda>m e. map_set (fst (snd e)) (snd (snd e)) m) m es) k =
     (case List.find (\<lambda>p. same_value_zero (fst p) k) (rev (map snd es)) of
        None \<Rightarrow> map_get m k
      | Some p \<Rightarrow> snd p)"
proof (induction es arbitrary: m)
  case Nil
  show ?case by simp
next
  case (Cons e es)
  show ?case
    by (simp add: Cons.IH find_append map_get_map_set split: option.splits)
qed

lemma fromEntries_loop_entries:
  "fromEntries_loop obj (values_iterator (map (\<lambda>e. entry (fst e, Str (fst (snd e)), snd (snd e))) es) s) =
     (Inr (obj ++ map_of (rev (map snd es))), s)"
proof (induction es arbitrary: obj)
  case Nil
  show ?case by simp
next
  case (Cons e es)
  let ?F = "\<lambda>e. entry (fst e, Str (fst (snd e)), snd (snd e))"
  have "fromEntries_loop obj (values_iterator (map ?F (e # es)) s) =
      fromEntries_loop (obj(fst (snd e) \<mapsto> snd (snd e))) (values_iterator (map ?F es) s)"
    by (simp del: fun_upd_apply)
  also have "\<dots> = (Inr (obj(fst (snd e) \<mapsto> snd (snd e)) ++ map_of (rev (map snd es))), s)"
    by (rule Cons.IH)
  also have "obj(fst (snd e) \<mapsto> snd (snd e)) ++ map_of (rev (map snd es)) =
      obj ++ map_of (rev (map snd (e # es)))"
    by (cases "snd e") simp
  finally show ?case .
qed

text \<open>
  Claim C8. Over an array of entries \<^verbatim>\<open>[key, value]\<close>: when no two keys are the same key
  for a \<^verbatim>\<open>Map\<close>, \<^verbatim>\<open>intoMap\<close> yields a map whose entries are the same pairs in the same
  order; whatever the keys, looking a key up in the map yields the value of its last
  occurrence; and when the keys are strings, \<^verbatim>\<open>intoObject\<close> yields the record with those
  keys, each with the value of its last occurrence.
\<close>

theorem sinks_round_trip:
  assumes "distinct_keys (map (\<lambda>e. fst (snd e)) es)"
  shows "intoMap \<lparr>ref = Value (Arr b (map entry es))\<rparr> s = (Inr (map snd es), s) \<and>
    (case intoMap \<lparr>ref = Value (Arr b (map entry ds))\<rparr> s of
       (Inl e, s') \<Rightarrow> False
     | (Inr m, s') \<Rightarrow> s' = s \<and> map_get m k =
         (case List.find (\<lambda>p. same_value_zero (fst p) k) (rev (map snd ds)) of
            None \<Rightarrow> Undefined
          | Some p \<Rightarrow> snd p)) \<and>
    intoObject \<lparr>ref = Value (Arr b (map (\<lambda>e. entry (fst e, Str (fst (snd e)), snd (snd e))) ss))\<rparr> s =
      (Inr (map_of (rev (map snd ss))), s)"
  using assms
  by (simp add: intoMap_def Map_constructor_def Map_loop_entries foldl_map_set_distinct
      map_get_foldl_map_set intoObject_def Object_fromEntries_def fromEntries_loop_entries
      split: option.splits)

text \<open>
  The example of the claim: \<^verbatim>\<open>[['a', 1], ['b', 2]]\<close> becomes the map with the entries
  \<^verbatim>\<open>['a', 1]\<close>, \<^verbatim>\<open>['b', 2]\<close> in this order, and the record \<^verbatim>\<open>{a: 1, b: 2}\<close>.
\<close>

theorem sinks_round_trip_witness:
  "distinct_keys [Str ''a'', Str ''b''] \<and>
   intoMap \<lparr>ref = Value (Arr 0 [Arr 1 [Str ''a'', Num 1], Arr 2 [Str ''b'', Num 2]])\<rparr> () =
     (Inr [(Str ''a'', Num 1), (Str ''b'', Num 2)], ()) \<and>
   intoObject \<lparr>ref = Value (Arr 0 [Arr 1 [Str ''a'', Num 1], Arr 2 [Str ''b'', Num 2]])\<rparr> () =
     (Inr [''a'' \<mapsto> Num 1, ''b'' \<mapsto> Num 2], ())"
proof -
  have d: "distinct_keys (map (\<lambda>e. fst (snd e)) [(1 :: nat, Str ''a'', Num 1), (2, Str ''b'', Num 2)])"
    by (simp add: same_value_zero_def strict_equals_def)
  show ?thesis
    using sinks_round_trip [OF d, where b = 0 and s = "()" and ds = "[]" and k = Undefined
        and ss = "[(1, ''a'', Num 1), (2, ''b'', Num 2)]"] d
    by (simp add: entry_def)
qed

end
